theory Spec2Isabelle
  imports Main "HOL-Library.Sublist"
begin

section \<open>The command-line context\<close>

text \<open>
  \<^verbatim>\<open>main.go\<close> reads its configuration through a \<^verbatim>\<open>*cli.Context\<close>. The context holds
  one flag set: a value for every flag that \<^verbatim>\<open>main\<close> declares in \<^verbatim>\<open>app.Flags\<close>, and
  nothing for any other name. A lookup of a name that is not in the flag set returns
  the zero value of the requested kind (the empty string, \<^verbatim>\<open>false\<close>, a nil slice).
\<close>

datatype flagValue =
    StringValue string
  | BoolValue bool
  | StringSliceValue "string list"

type_synonym Context = "(string \<times> flagValue) list"

text \<open>
  The lookups used by \<^verbatim>\<open>run\<close> and \<^verbatim>\<open>s3Storage\<close>. The source looks every flag up at the
  kind it was declared with; a value stored at another kind reads as the zero value here.
\<close>

definition String :: "Context \<Rightarrow> string \<Rightarrow> string" where
  "String c name = (case map_of c name of Some (StringValue s) \<Rightarrow> s | _ \<Rightarrow> [])"

definition Bool :: "Context \<Rightarrow> string \<Rightarrow> bool" where
  "Bool c name = (case map_of c name of Some (BoolValue b) \<Rightarrow> b | _ \<Rightarrow> False)"

definition StringSlice :: "Context \<Rightarrow> string \<Rightarrow> string list" where
  "StringSlice c name = (case map_of c name of Some (StringSliceValue xs) \<Rightarrow> xs | _ \<Rightarrow> [])"

text \<open>
  \<^verbatim>\<open>run\<close> is the action of the application itself, so its context has no parent and a
  global lookup searches the same flag set as a local one.
\<close>

definition GlobalString :: "Context \<Rightarrow> string \<Rightarrow> string" where
  "GlobalString c name = String c name"

subsection \<open>The flags declared by \<^verbatim>\<open>main\<close> (lines 24--111)\<close>

text \<open>
  A flag has a name, a kind and a default value; the usage text and the names of the
  environment variables a value may come from are left out.
\<close>

datatype flag =
    StringFlag (Name: string) (Value: string)
  | StringSliceFlag (Name: string)
  | BoolFlag (Name: string)

definition app_Flags :: "flag list" where
  "app_Flags =
    [ StringFlag ''filename'' [],
      StringFlag ''path'' [],
      StringFlag ''fallback_path'' [],
      StringSliceFlag ''mount'',
      BoolFlag ''rebuild'',
      BoolFlag ''restore'',
      BoolFlag ''flush'',
      StringFlag ''flush_age'' ''30'',
      BoolFlag ''debug'',
      StringFlag ''repo.owner'' [],
      StringFlag ''repo.name'' [],
      StringFlag ''commit.branch'' ''master'',
      StringFlag ''server'' [],
      StringFlag ''access-key'' [],
      StringFlag ''secret-key'' [] ]"

text \<open>
  \<^verbatim>\<open>app.Run\<close> builds the flag set from the declared flags: each one starts at its default
  and takes the value supplied for it from outside, if there is one of its kind. The
  settings are keyed by option name here, whichever way they arrive (the pipeline passes
  them in environment variables; the command line can set the same flags). A setting
  whose name no flag declares never reaches the flag set: no flag reads its environment
  variable, and the flag parser refuses an undeclared command-line flag before \<^verbatim>\<open>run\<close>
  is called.
\<close>

fun applyFlag :: "(string \<times> flagValue) list \<Rightarrow> flag \<Rightarrow> string \<times> flagValue" where
  "applyFlag supplied (StringFlag n v) =
     (n, case map_of supplied n of Some (StringValue s) \<Rightarrow> StringValue s | _ \<Rightarrow> StringValue v)"
| "applyFlag supplied (StringSliceFlag n) =
     (n, case map_of supplied n of Some (StringSliceValue xs) \<Rightarrow> StringSliceValue xs
                                 | _ \<Rightarrow> StringSliceValue [])"
| "applyFlag supplied (BoolFlag n) =
     (n, case map_of supplied n of Some (BoolValue b) \<Rightarrow> BoolValue b | _ \<Rightarrow> BoolValue False)"

definition newContext :: "flag list \<Rightarrow> (string \<times> flagValue) list \<Rightarrow> Context" where
  "newContext flags supplied = map (applyFlag supplied) flags"

section \<open>Mode selection\<close>

text \<open>
  \<^verbatim>\<open>isMultipleModes\<close> (lines 271--284): the loop over the variadic arguments, with the
  local \<^verbatim>\<open>b\<close> as the accumulator. The early \<^verbatim>\<open>return true\<close> is the first branch; falling
  off the end of the slice returns \<^verbatim>\<open>false\<close>.
\<close>

fun isMultipleModes_loop :: "bool \<Rightarrow> bool list \<Rightarrow> bool" where
  "isMultipleModes_loop b [] = False"
| "isMultipleModes_loop b (v # bools) =
     (if b \<and> b = v then True
      else isMultipleModes_loop (if v then True else b) bools)"

definition isMultipleModes :: "bool list \<Rightarrow> bool" where
  "isMultipleModes bools = isMultipleModes_loop False bools"

section \<open>Errors\<close>

text \<open>
  The source has one error interface and no error classes of its own: \<^verbatim>\<open>errors.New\<close> and
  \<^verbatim>\<open>fmt.Errorf\<close> build an error from its message, \<^verbatim>\<open>strconv.Atoi\<close> returns a
  \<^verbatim>\<open>*NumError\<close> (function, input, cause).
\<close>

datatype numErr = ErrSyntax | ErrRange

datatype error =
    ErrorString string
  | NumError string string numErr

section \<open>\<^verbatim>\<open>strconv.Atoi\<close>\<close>

text \<open>
  The standard library's decimal parser, for a 64-bit \<^verbatim>\<open>int\<close>: an optional sign, then
  one or more decimal digits, scanned left to right; a character that is not a digit is
  a syntax error, a value outside \<open>-2^63 .. 2^63 - 1\<close> a range error.
\<close>

definition isDigit :: "char \<Rightarrow> bool" where
  "isDigit ch = (ch \<in> set ''0123456789'')"

definition digitVal :: "char \<Rightarrow> nat" where
  "digitVal ch = of_char ch - 48"

definition maxUint64 :: nat where
  "maxUint64 = 18446744073709551615"

fun ParseUint_loop :: "nat \<Rightarrow> string \<Rightarrow> numErr + nat" where
  "ParseUint_loop n [] = Inr n"
| "ParseUint_loop n (ch # s) =
     (if \<not> isDigit ch then Inl ErrSyntax
      else if n \<ge> maxUint64 div 10 + 1 then Inl ErrRange
      else (let n1 = n * 10 + digitVal ch in
            if n1 > maxUint64 then Inl ErrRange else ParseUint_loop n1 s))"

definition ParseUint :: "string \<Rightarrow> numErr + nat" where
  "ParseUint s = (if s = [] then Inl ErrSyntax else ParseUint_loop 0 s)"

definition Atoi :: "string \<Rightarrow> error + int" where
  "Atoi s0 =
     (case s0 of
        [] \<Rightarrow> Inl (NumError ''Atoi'' s0 ErrSyntax)
      | ch # rest \<Rightarrow>
          (let neg = (ch = CHR ''-'');
               s = (if ch = CHR ''+'' \<or> ch = CHR ''-'' then rest else s0)
           in case ParseUint s of
                Inl e \<Rightarrow> Inl (NumError ''Atoi'' s0 e)
              | Inr un \<Rightarrow>
                  if \<not> neg \<and> un \<ge> 2 ^ 63 then Inl (NumError ''Atoi'' s0 ErrRange)
                  else if neg \<and> un > 2 ^ 63 then Inl (NumError ''Atoi'' s0 ErrRange)
                  else Inr (if neg then - int un else int un)))"

section \<open>The plugin and the storage client, as \<^verbatim>\<open>main.go\<close> sees them\<close>

text \<open>
  \<^verbatim>\<open>s3.Options\<close> and \<^verbatim>\<open>Plugin\<close> are built field by field in \<^verbatim>\<open>main.go\<close>; the storage
  handle returned by \<^verbatim>\<open>s3.New\<close> is opaque (the type variable \<open>'s\<close>).
\<close>

record Options =
  Endpoint :: string
  Access :: string
  Secret :: string
  UseSSL :: bool

text \<open>
  Modelled from the spec: the three mode constants \<^verbatim>\<open>RebuildMode\<close>, \<^verbatim>\<open>RestoreMode\<close> and
  \<^verbatim>\<open>FlushMode\<close> are declared outside \<^verbatim>\<open>main.go\<close>; the spec's data model has a mode that
  is one of exactly Rebuild, Restore, Flush.
\<close>

datatype Mode = RebuildMode | RestoreMode | FlushMode

record 's Plugin =
  Filename :: string
  Path :: string
  FallbackPath :: string
  FlushPath :: string
  Mode :: Mode
  FlushAge :: int
  Mount :: "string list"
  Storage :: 's

text \<open>
  What an invocation does to the outside world, in order: the construction of the
  storage client (\<^verbatim>\<open>s3.New\<close>) and the execution of the plugin (\<^verbatim>\<open>p.Exec\<close>), which is
  where every storage operation happens. Log lines are not recorded.
\<close>

datatype 's event =
    S3New Options
  | PluginExec "'s Plugin"

section \<open>\<^verbatim>\<open>s3Storage\<close> (lines 231--269)\<close>

text \<open>
  The first half (lines 233--253) computes the endpoint and the SSL switch from the
  \<^verbatim>\<open>server\<close> option, or fails.
\<close>

definition s3Storage_endpoint :: "string \<Rightarrow> error + (string \<times> bool)" where
  "s3Storage_endpoint server =
     (if length server > 0 then
        (let useSSL = prefix ''https://'' server in
         if \<not> useSSL then
           (if \<not> prefix ''http://'' server then
              Inl (ErrorString (''Invalid server '' @ server @ ''. Needs to be a HTTP URI''))
            else Inr (drop 7 server, useSSL))
         else Inr (drop 8 server, useSSL))
      else Inr (''s3.amazonaws.com'', True))"

text \<open>
  The second half (lines 255--268) requires both credentials and calls \<^verbatim>\<open>s3.New\<close>, a
  parameter here. The result is paired with the events that happened.
\<close>

definition s3Storage ::
  "(Options \<Rightarrow> error + 's) \<Rightarrow> Context \<Rightarrow> 's event list \<times> (error + 's)" where
  "s3Storage s3_New c =
     (let server = String c ''server'' in
      case s3Storage_endpoint server of
        Inl err \<Rightarrow> ([], Inl err)
      | Inr (endpoint, useSSL) \<Rightarrow>
          (let access = String c ''access-key'';
               secret = String c ''secret-key''
           in if length access = 0 \<or> length secret = 0 then
                ([], Inl (ErrorString ''No access credentials provided''))
              else
                (let opts = \<lparr>Endpoint = endpoint, Access = access,
                                Secret = secret, UseSSL = useSSL\<rparr>
                 in ([S3New opts], s3_New opts))))"

section \<open>\<^verbatim>\<open>run\<close> (lines 118--229)\<close>

text \<open>
  The four defaulting blocks of \<^verbatim>\<open>run\<close>, each named after the local variable it sets:
  lines 153--166, 168--180, 182--194 and 196--203. \<^verbatim>\<open>fmt.Sprintf\<close> with \<^verbatim>\<open>%s\<close> verbs
  is concatenation.
\<close>

definition run_path :: "Context \<Rightarrow> string" where
  "run_path c =
     (let path = GlobalString c ''path'' in
      if length path = 0 then
        ''/'' @ String c ''repo.owner'' @ ''/'' @ String c ''repo.name'' @ ''/''
            @ String c ''commit.branch'' @ ''/''
      else path)"

definition run_fallbackPath :: "Context \<Rightarrow> string" where
  "run_fallbackPath c =
     (let fallbackPath = GlobalString c ''fallback_path'' in
      if length fallbackPath = 0 then
        ''/'' @ String c ''repo.owner'' @ ''/'' @ String c ''repo.name'' @ ''/master/''
      else fallbackPath)"

definition run_flushPath :: "Context \<Rightarrow> string" where
  "run_flushPath c =
     (let flushPath = GlobalString c ''flush_path'' in
      if length flushPath = 0 then
        ''/'' @ String c ''repo.owner'' @ ''/'' @ String c ''repo.name'' @ ''/''
      else flushPath)"

definition run_filename :: "Context \<Rightarrow> string" where
  "run_filename c =
     (let filename = GlobalString c ''filename'' in
      if length filename = 0 then ''archive.tar'' else filename)"

text \<open>
  \<^verbatim>\<open>run\<close> itself. \<^verbatim>\<open>s3.New\<close> and \<^verbatim>\<open>Plugin.Exec\<close> are parameters; the result is the
  error returned (\<open>None\<close> for \<^verbatim>\<open>nil\<close>), paired with the events that happened. Each
  \<^verbatim>\<open>return\<close> of the source is one branch, in the source's order: the two mode checks
  (lines 129--133), the choice of mode with the mount check of rebuild (lines 135--151),
  the defaulting blocks, \<^verbatim>\<open>s3Storage\<close> (lines 205--209), \<^verbatim>\<open>strconv.Atoi\<close> on
  \<^verbatim>\<open>flush_age\<close> (lines 211--215), and the plugin (lines 217--228). The mount list stays
  nil unless the mode is rebuild. The log lines and the \<^verbatim>\<open>debug\<close> switch, which only sets
  the log level, are left out.
\<close>

definition run ::
  "(Options \<Rightarrow> error + 's) \<Rightarrow> ('s Plugin \<Rightarrow> error option) \<Rightarrow> Context
     \<Rightarrow> 's event list \<times> error option" where
  "run s3_New Exec c =
     (let rebuild = Bool c ''rebuild'';
          restore = Bool c ''restore'';
          flush = Bool c ''flush''
      in
      if isMultipleModes [rebuild, restore, flush] then
        ([], Some (ErrorString ''Must use a single mode: rebuild, restore or flush''))
      else if \<not> rebuild \<and> \<not> restore \<and> \<not> flush then
        ([], Some (ErrorString ''No action specified''))
      else
        (case (if rebuild then
                 (let mount = StringSlice c ''mount'' in
                  if length mount = 0 then Inl (ErrorString ''No mounts specified'')
                  else Inr (RebuildMode, mount))
               else if flush then Inr (FlushMode, [])
               else Inr (RestoreMode, [])) of
           Inl err \<Rightarrow> ([], Some err)
         | Inr (mode, mount) \<Rightarrow>
             (let path = run_path c;
                  fallbackPath = run_fallbackPath c;
                  flushPath = run_flushPath c;
                  filename = run_filename c
              in case s3Storage s3_New c of
                   (evs, Inl err) \<Rightarrow> (evs, Some err)
                 | (evs, Inr s) \<Rightarrow>
                     (case Atoi (String c ''flush_age'') of
                        Inl err \<Rightarrow> (evs, Some err)
                      | Inr flushAge \<Rightarrow>
                          (let p = \<lparr>Filename = filename, Path = path,
                                      FallbackPath = fallbackPath, FlushPath = flushPath,
                                      Mode = mode, FlushAge = flushAge, Mount = mount,
                                      Storage = s\<rparr>
                           in (evs @ [PluginExec p], Exec p))))))"

text \<open>
  \<^verbatim>\<open>main\<close>, lines 113--115: an error from \<^verbatim>\<open>app.Run\<close> goes to \<^verbatim>\<open>log.Fatal\<close>, which exits
  with status 1; otherwise \<^verbatim>\<open>main\<close> returns and the process exits with status 0.
\<close>

definition exitStatus :: "error option \<Rightarrow> nat" where
  "exitStatus err = (case err of None \<Rightarrow> 0 | Some e \<Rightarrow> 1)"

text \<open>
  A storage constructor and a plugin body that always succeed, for evaluating \<^verbatim>\<open>run\<close>
  on concrete configurations: the handle is the options it was built from.
\<close>

definition s3_New_ok :: "Options \<Rightarrow> error + Options" where
  "s3_New_ok opts = Inr opts"

definition Exec_ok :: "Options Plugin \<Rightarrow> error option" where
  "Exec_ok p = None"

section \<open>Restore and flush, as the specification describes them\<close>

text \<open>
  Modelled from the spec: \<^verbatim>\<open>Plugin.Exec\<close> and the cache operations behind it (restore
  with its fallback, the retention sweep of flush, the storage client they call) are
  not part of \<^verbatim>\<open>main.go\<close>, which only builds the \<^verbatim>\<open>Plugin\<close> and calls \<^verbatim>\<open>p.Exec()\<close>. The
  definitions of this section follow the specification's sections 4.3, 4.4, 4.5, 6 and 7.
\<close>

datatype specError =
    ConfigError
  | UsageError
  | ArchiveError
  | StorageTransportError

text \<open>
  Modelled from the spec: \<^verbatim>\<open>get(key) -> (payload, found, error)\<close>, where \<^verbatim>\<open>found=false\<close>
  is not an error and \<^verbatim>\<open>error\<close> is a transport failure.
\<close>

datatype 'p getResult =
    Found 'p
  | Absent
  | GetFailed

text \<open>
  Modelled from the spec: the outcome of a restore that did not fail is either the
  set of restored paths or a cache miss, which restores zero files.
\<close>

datatype restoreOutcome =
    Restored "string list"
  | CacheMiss

fun restoredFiles :: "restoreOutcome \<Rightarrow> string list" where
  "restoredFiles (Restored files) = files"
| "restoredFiles CacheMiss = []"

text \<open>
  Modelled from the spec: \<^verbatim>\<open>Restore(filename, path, fallbackPath)\<close> gets
  \<^verbatim>\<open>path+filename\<close>; on \<^verbatim>\<open>found=false\<close> it gets \<^verbatim>\<open>fallbackPath+filename\<close>; if that too is
  absent the operation completes successfully with zero files restored. A transport
  failure is fatal; on a hit the archive is extracted and an extraction failure is fatal.
\<close>

definition Restore ::
  "(string \<Rightarrow> 'p getResult) \<Rightarrow> ('p \<Rightarrow> specError + string list)
     \<Rightarrow> string \<Rightarrow> string \<Rightarrow> string \<Rightarrow> specError + restoreOutcome" where
  "Restore get extract filename path fallbackPath =
     (case get (path @ filename) of
        GetFailed \<Rightarrow> Inl StorageTransportError
      | Found blob \<Rightarrow> map_sum id Restored (extract blob)
      | Absent \<Rightarrow>
          (case get (fallbackPath @ filename) of
             GetFailed \<Rightarrow> Inl StorageTransportError
           | Found blob \<Rightarrow> map_sum id Restored (extract blob)
           | Absent \<Rightarrow> Inr CacheMiss))"

text \<open>
  Modelled from the spec: success is exit code 0, any fatal error a non-zero exit
  (status 1, the status \<^verbatim>\<open>log.Fatal\<close> exits with in \<^verbatim>\<open>main\<close>).
\<close>

definition exitCode :: "specError + 'a \<Rightarrow> nat" where
  "exitCode r = (case r of Inl e \<Rightarrow> 1 | Inr v \<Rightarrow> 0)"

text \<open>
  Modelled from the spec: a stored object is a key, a payload and a last-modified
  timestamp; the storage namespace is the list of its objects. Timestamps and \<^verbatim>\<open>now\<close>
  are in seconds, and a day has 86400 of them.
\<close>

record 'p StoredObject =
  key :: string
  payload :: 'p
  lastModified :: int

definition secondsPerDay :: int where
  "secondsPerDay = 86400"

text \<open>Modelled from the spec: \<^verbatim>\<open>list(prefix)\<close> enumerates every (key, lastModified) under the prefix.\<close>

definition storage_list :: "'p StoredObject list \<Rightarrow> string \<Rightarrow> (string \<times> int) list" where
  "storage_list store pfx =
     map (\<lambda>obj. (key obj, lastModified obj)) (filter (\<lambda>obj. prefix pfx (key obj)) store)"

text \<open>
  Modelled from the spec: \<^verbatim>\<open>delete(key) -> error\<close> is idempotent. Whether the backend fails
  on a key is the parameter \<open>fails\<close>; a failed delete leaves the namespace as it was.
\<close>

definition storage_delete ::
  "(string \<Rightarrow> bool) \<Rightarrow> 'p StoredObject list \<Rightarrow> string
     \<Rightarrow> 'p StoredObject list \<times> specError option" where
  "storage_delete fails store k =
     (if fails k then (store, Some StorageTransportError)
      else (filter (\<lambda>obj. key obj \<noteq> k) store, None))"

text \<open>
  Modelled from the spec: \<^verbatim>\<open>sweep(prefix, maxAgeDays) -> (deletedCount, error)\<close> computes
  for each listed object \<^verbatim>\<open>age = now - lastModified\<close> and issues \<^verbatim>\<open>delete(key)\<close> if
  \<^verbatim>\<open>age > maxAgeDays\<close> (strict); it continues past a failed delete and reports an error
  only if at least one delete failed. The namespace after the sweep is returned as well.
\<close>

fun sweep_loop ::
  "(string \<Rightarrow> bool) \<Rightarrow> int \<Rightarrow> int \<Rightarrow> (string \<times> int) list
     \<Rightarrow> 'p StoredObject list \<Rightarrow> nat \<Rightarrow> nat \<Rightarrow> 'p StoredObject list \<times> nat \<times> nat" where
  "sweep_loop fails now maxAgeDays [] store deleted failed = (store, deleted, failed)"
| "sweep_loop fails now maxAgeDays ((k, modified) # objs) store deleted failed =
     (if now - modified > maxAgeDays * secondsPerDay then
        (case storage_delete fails store k of
           (store', None) \<Rightarrow> sweep_loop fails now maxAgeDays objs store' (deleted + 1) failed
         | (store', Some e) \<Rightarrow> sweep_loop fails now maxAgeDays objs store' deleted (failed + 1))
      else sweep_loop fails now maxAgeDays objs store deleted failed)"

definition sweep ::
  "(string \<Rightarrow> bool) \<Rightarrow> int \<Rightarrow> 'p StoredObject list \<Rightarrow> string \<Rightarrow> int
     \<Rightarrow> 'p StoredObject list \<times> nat \<times> specError option" where
  "sweep fails now store pfx maxAgeDays =
     (case sweep_loop fails now maxAgeDays (storage_list store pfx) store 0 0 of
        (store', deleted, failed) \<Rightarrow>
          (store', deleted, if failed > 0 then Some StorageTransportError else None))"

text \<open>A backend on which no delete fails, and one on which every delete fails.\<close>

definition never_fails :: "string \<Rightarrow> bool" where
  "never_fails k = False"

definition always_fails :: "string \<Rightarrow> bool" where
  "always_fails k = True"

section \<open>Concrete configurations\<close>

text \<open>
  Settings as a pipeline would supply them, turned into the flag set of \<^verbatim>\<open>main\<close>.
\<close>

definition cfg_restore_feature :: Context where
  "cfg_restore_feature = newContext app_Flags
     [(''restore'', BoolValue True),
      (''repo.owner'', StringValue ''acme''), (''repo.name'', StringValue ''widget''),
      (''commit.branch'', StringValue ''feature-x''),
      (''access-key'', StringValue ''AK''), (''secret-key'', StringValue ''SK'')]"

definition cfg_two_modes :: Context where
  "cfg_two_modes = newContext app_Flags
     [(''rebuild'', BoolValue True), (''flush'', BoolValue True),
      (''mount'', StringSliceValue [''node_modules'']),
      (''repo.owner'', StringValue ''acme''), (''repo.name'', StringValue ''widget''),
      (''access-key'', StringValue ''AK''), (''secret-key'', StringValue ''SK'')]"

definition cfg_no_mode :: Context where
  "cfg_no_mode = newContext app_Flags
     [(''repo.owner'', StringValue ''acme''), (''repo.name'', StringValue ''widget''),
      (''access-key'', StringValue ''AK''), (''secret-key'', StringValue ''SK'')]"

definition cfg_rebuild_no_mount :: Context where
  "cfg_rebuild_no_mount = newContext app_Flags
     [(''rebuild'', BoolValue True),
      (''repo.owner'', StringValue ''acme''), (''repo.name'', StringValue ''widget''),
      (''access-key'', StringValue ''AK''), (''secret-key'', StringValue ''SK'')]"

definition cfg_no_owner :: Context where
  "cfg_no_owner = newContext app_Flags
     [(''restore'', BoolValue True),
      (''repo.name'', StringValue ''widget''),
      (''access-key'', StringValue ''AK''), (''secret-key'', StringValue ''SK'')]"

definition cfg_negative_age :: Context where
  "cfg_negative_age = newContext app_Flags
     [(''flush'', BoolValue True),
      (''flush_age'', StringValue ''-5''),
      (''repo.owner'', StringValue ''acme''), (''repo.name'', StringValue ''widget''),
      (''access-key'', StringValue ''AK''), (''secret-key'', StringValue ''SK'')]"

definition cfg_bad_age :: Context where
  "cfg_bad_age = newContext app_Flags
     [(''flush'', BoolValue True),
      (''flush_age'', StringValue ''soon''),
      (''repo.owner'', StringValue ''acme''), (''repo.name'', StringValue ''widget''),
      (''access-key'', StringValue ''AK''), (''secret-key'', StringValue ''SK'')]"

definition cfg_bad_server :: Context where
  "cfg_bad_server = newContext app_Flags
     [(''restore'', BoolValue True),
      (''server'', StringValue ''ftp://cache.local''),
      (''repo.owner'', StringValue ''acme''), (''repo.name'', StringValue ''widget''),
      (''access-key'', StringValue ''AK''), (''secret-key'', StringValue ''SK'')]"

text \<open>A namespace of three objects, and a storage client that holds nothing.\<close>

definition store3 :: "unit StoredObject list" where
  "store3 =
     [\<lparr>key = ''/acme/widget/master/archive.tar'', payload = (), lastModified = 0\<rparr>,
      \<lparr>key = ''/acme/widget/dev/archive.tar'', payload = (), lastModified = 100\<rparr>,
      \<lparr>key = ''/other/repo/master/archive.tar'', payload = (), lastModified = 0\<rparr>]"

definition get_nothing :: "string \<Rightarrow> unit getResult" where
  "get_nothing k = Absent"

definition extract_nothing :: "unit \<Rightarrow> specError + string list" where
  "extract_nothing blob = Inr []"

section \<open>Properties of mode selection\<close>

lemma isMultipleModes_loop_seen:
  "isMultipleModes_loop True bools = (True \<in> set bools)"
  by (induction bools) auto

lemma isMultipleModes_loop_count:
  "isMultipleModes_loop False bools = (2 \<le> length (filter (\<lambda>v. v) bools))"
proof (induction bools)
  case Nil
  show ?case by simp
next
  case (Cons v bools)
  show ?case
  proof (cases v)
    case True
    have "(True \<in> set bools) = (1 \<le> length (filter (\<lambda>v. v) bools))"
      by (induction bools) auto
    with True show ?thesis
      by (simp add: isMultipleModes_loop_seen)
  next
    case False
    with Cons.IH show ?thesis by simp
  qed
qed

text \<open>
  C9. For every finite list of booleans, \<^verbatim>\<open>isMultipleModes\<close> returns true exactly when
  at least two elements of the list are true; it returns false for the empty list and
  for every list with exactly one true element.
\<close>

theorem isMultipleModes_iff_two_true:
  "isMultipleModes bools = (2 \<le> length (filter (\<lambda>v. v) bools))
   \<and> isMultipleModes [] = False
   \<and> (length (filter (\<lambda>v. v) bools) = 1 \<longrightarrow> isMultipleModes bools = False)"
  by (simp add: isMultipleModes_def isMultipleModes_loop_count)

theorem isMultipleModes_iff_two_true_witness:
  "length (filter (\<lambda>v. v) [False, True, False]) = 1
   \<and> isMultipleModes [False, True, False] = False
   \<and> isMultipleModes [True, False, True] = True"
  using isMultipleModes_iff_two_true [of "[False, True, False]"]
        isMultipleModes_iff_two_true [of "[True, False, True]"]
  by simp

text \<open>The three mode switches of \<^verbatim>\<open>run\<close>, case by case.\<close>

lemma isMultipleModes3:
  "isMultipleModes [a, b, c] = ((a \<and> b) \<or> (a \<and> c) \<or> (b \<and> c))"
  by (auto simp: isMultipleModes_def)

lemma two_of_three:
  "(2 \<le> length (filter (\<lambda>v. v) [a, b, c])) = ((a \<and> b) \<or> (a \<and> c) \<or> (b \<and> c))"
  by auto

lemma one_of_three:
  "(length (filter (\<lambda>v. v) [a, b, c]) = 1) =
   ((a \<or> b \<or> c) \<and> \<not> ((a \<and> b) \<or> (a \<and> c) \<or> (b \<and> c)))"
  by auto

section \<open>Evaluating the concrete configurations\<close>

lemmas lookups = Bool_def String_def StringSlice_def GlobalString_def

lemmas atoi_eval = Atoi_def ParseUint_def isDigit_def digitVal_def maxUint64_def

lemmas ctx_eval = newContext_def app_Flags_def

lemmas run_eval = run_def isMultipleModes_def run_path_def run_fallbackPath_def
  run_flushPath_def run_filename_def s3Storage_def s3Storage_endpoint_def
  s3_New_ok_def Exec_ok_def Let_def

lemma cfg_restore_feature_eq:
  "cfg_restore_feature =
    [(''filename'', StringValue []), (''path'', StringValue []),
     (''fallback_path'', StringValue []), (''mount'', StringSliceValue []),
     (''rebuild'', BoolValue False), (''restore'', BoolValue True),
     (''flush'', BoolValue False), (''flush_age'', StringValue ''30''),
     (''debug'', BoolValue False), (''repo.owner'', StringValue ''acme''),
     (''repo.name'', StringValue ''widget''), (''commit.branch'', StringValue ''feature-x''),
     (''server'', StringValue []), (''access-key'', StringValue ''AK''),
     (''secret-key'', StringValue ''SK'')]"
  by (simp add: cfg_restore_feature_def ctx_eval)

lemma cfg_no_owner_eq:
  "cfg_no_owner =
    [(''filename'', StringValue []), (''path'', StringValue []),
     (''fallback_path'', StringValue []), (''mount'', StringSliceValue []),
     (''rebuild'', BoolValue False), (''restore'', BoolValue True),
     (''flush'', BoolValue False), (''flush_age'', StringValue ''30''),
     (''debug'', BoolValue False), (''repo.owner'', StringValue []),
     (''repo.name'', StringValue ''widget''), (''commit.branch'', StringValue ''master''),
     (''server'', StringValue []), (''access-key'', StringValue ''AK''),
     (''secret-key'', StringValue ''SK'')]"
  by (simp add: cfg_no_owner_def ctx_eval)

lemma cfg_negative_age_eq:
  "cfg_negative_age =
    [(''filename'', StringValue []), (''path'', StringValue []),
     (''fallback_path'', StringValue []), (''mount'', StringSliceValue []),
     (''rebuild'', BoolValue False), (''restore'', BoolValue False),
     (''flush'', BoolValue True), (''flush_age'', StringValue ''-5''),
     (''debug'', BoolValue False), (''repo.owner'', StringValue ''acme''),
     (''repo.name'', StringValue ''widget''), (''commit.branch'', StringValue ''master''),
     (''server'', StringValue []), (''access-key'', StringValue ''AK''),
     (''secret-key'', StringValue ''SK'')]"
  by (simp add: cfg_negative_age_def ctx_eval)

lemma cfg_bad_age_eq:
  "cfg_bad_age =
    [(''filename'', StringValue []), (''path'', StringValue []),
     (''fallback_path'', StringValue []), (''mount'', StringSliceValue []),
     (''rebuild'', BoolValue False), (''restore'', BoolValue False),
     (''flush'', BoolValue True), (''flush_age'', StringValue ''soon''),
     (''debug'', BoolValue False), (''repo.owner'', StringValue ''acme''),
     (''repo.name'', StringValue ''widget''), (''commit.branch'', StringValue ''master''),
     (''server'', StringValue []), (''access-key'', StringValue ''AK''),
     (''secret-key'', StringValue ''SK'')]"
  by (simp add: cfg_bad_age_def ctx_eval)

lemma cfg_bad_server_eq:
  "cfg_bad_server =
    [(''filename'', StringValue []), (''path'', StringValue []),
     (''fallback_path'', StringValue []), (''mount'', StringSliceValue []),
     (''rebuild'', BoolValue False), (''restore'', BoolValue True),
     (''flush'', BoolValue False), (''flush_age'', StringValue ''30''),
     (''debug'', BoolValue False), (''repo.owner'', StringValue ''acme''),
     (''repo.name'', StringValue ''widget''), (''commit.branch'', StringValue ''master''),
     (''server'', StringValue ''ftp://cache.local''), (''access-key'', StringValue ''AK''),
     (''secret-key'', StringValue ''SK'')]"
  by (simp add: cfg_bad_server_def ctx_eval)

lemma cfg_two_modes_flags:
  "Bool cfg_two_modes ''rebuild''" "\<not> Bool cfg_two_modes ''restore''"
  "Bool cfg_two_modes ''flush''"
  by (simp_all add: cfg_two_modes_def ctx_eval Bool_def)

lemma cfg_no_mode_flags:
  "\<not> Bool cfg_no_mode ''rebuild''" "\<not> Bool cfg_no_mode ''restore''"
  "\<not> Bool cfg_no_mode ''flush''"
  by (simp_all add: cfg_no_mode_def ctx_eval Bool_def)

lemma cfg_rebuild_no_mount_flags:
  "Bool cfg_rebuild_no_mount ''rebuild''" "\<not> Bool cfg_rebuild_no_mount ''restore''"
  "\<not> Bool cfg_rebuild_no_mount ''flush''" "StringSlice cfg_rebuild_no_mount ''mount'' = []"
  by (simp_all add: cfg_rebuild_no_mount_def ctx_eval Bool_def StringSlice_def)

lemma cfg_restore_feature_run:
  "run s3_New_ok Exec_ok cfg_restore_feature =
     ([S3New \<lparr>Endpoint = ''s3.amazonaws.com'', Access = ''AK'', Secret = ''SK'', UseSSL = True\<rparr>,
       PluginExec
         \<lparr>Filename = ''archive.tar'', Path = ''/acme/widget/feature-x/'',
          FallbackPath = ''/acme/widget/master/'', FlushPath = ''/acme/widget/'',
          Mode = RestoreMode, FlushAge = 30, Mount = [],
          Storage = \<lparr>Endpoint = ''s3.amazonaws.com'', Access = ''AK'', Secret = ''SK'',
                     UseSSL = True\<rparr>\<rparr>],
      None)"
  by (simp add: cfg_restore_feature_eq lookups run_eval atoi_eval)

section \<open>Properties of \<^verbatim>\<open>run\<close> and \<^verbatim>\<open>s3Storage\<close>\<close>

text \<open>\<^verbatim>\<open>s3Storage\<close> never executes the plugin.\<close>

lemma s3Storage_events:
  "PluginExec p \<notin> set (fst (s3Storage s3_New c))"
  by (auto simp: s3Storage_def Let_def split: sum.splits prod.splits)

lemma s3Storage_ok_events:
  "s3Storage s3_New c = (evs, r) \<Longrightarrow> PluginExec p \<notin> set evs"
  using s3Storage_events [of p s3_New c] by simp

text \<open>
  The path through \<^verbatim>\<open>run\<close> on which nothing fails: one mode, mounts if the mode is
  rebuild, a storage client, a flush age that parses.
\<close>

lemma run_proceeds:
  assumes "length (filter (\<lambda>v. v) [Bool c ''rebuild'', Bool c ''restore'', Bool c ''flush'']) = 1"
      and "Bool c ''rebuild'' \<longrightarrow> StringSlice c ''mount'' \<noteq> []"
      and "s3Storage s3_New c = (evs, Inr s)"
      and "Atoi (String c ''flush_age'') = Inr n"
  shows "run s3_New Exec c =
           (evs @ [PluginExec
                     \<lparr>Filename = run_filename c, Path = run_path c,
                      FallbackPath = run_fallbackPath c, FlushPath = run_flushPath c,
                      Mode = (if Bool c ''rebuild'' then RebuildMode
                              else if Bool c ''flush'' then FlushMode else RestoreMode),
                      FlushAge = n,
                      Mount = (if Bool c ''rebuild'' then StringSlice c ''mount'' else []),
                      Storage = s\<rparr>],
            Exec \<lparr>Filename = run_filename c, Path = run_path c,
                  FallbackPath = run_fallbackPath c, FlushPath = run_flushPath c,
                  Mode = (if Bool c ''rebuild'' then RebuildMode
                          else if Bool c ''flush'' then FlushMode else RestoreMode),
                  FlushAge = n,
                  Mount = (if Bool c ''rebuild'' then StringSlice c ''mount'' else []),
                  Storage = s\<rparr>)"
  using assms unfolding one_of_three by (auto simp: run_def isMultipleModes3 Let_def)

lemma run_atoi_error:
  assumes "length (filter (\<lambda>v. v) [Bool c ''rebuild'', Bool c ''restore'', Bool c ''flush'']) = 1"
      and "Bool c ''rebuild'' \<longrightarrow> StringSlice c ''mount'' \<noteq> []"
      and "s3Storage s3_New c = (evs, Inr s)"
      and "Atoi (String c ''flush_age'') = Inl e"
  shows "run s3_New Exec c = (evs, Some e)"
  using assms unfolding one_of_three by (auto simp: run_def isMultipleModes3 Let_def)

text \<open>Whatever plugin \<^verbatim>\<open>run\<close> executes carries the resolved paths.\<close>

lemma run_exec_paths:
  assumes "PluginExec p \<in> set (fst (run s3_New Exec c))"
  shows "Path p = run_path c \<and> FallbackPath p = run_fallbackPath c
         \<and> FlushPath p = run_flushPath c \<and> Filename p = run_filename c"
proof (cases "s3Storage s3_New c")
  case (Pair evs r)
  have no: "PluginExec p \<notin> set evs"
    using Pair by (rule s3Storage_ok_events)
  from assms Pair no show ?thesis
    by (auto simp: run_def Let_def split: if_splits sum.splits prod.splits)
qed

lemma run_failed_no_exec:
  assumes "Atoi (String c ''flush_age'') = Inl e"
  shows "\<exists>evs err. run s3_New Exec c = (evs, Some err) \<and> (\<forall>p. PluginExec p \<notin> set evs)"
proof (cases "s3Storage s3_New c")
  case (Pair evs r)
  have no: "\<forall>p. PluginExec p \<notin> set evs"
    using Pair s3Storage_ok_events by fastforce
  from assms Pair no show ?thesis
    by (auto simp: run_def Let_def split: if_splits sum.splits prod.splits)
qed

text \<open>
  No flag named \<^verbatim>\<open>flush_path\<close> is declared, so the flag set that \<^verbatim>\<open>main\<close> builds never
  holds a value for it, whatever is supplied.
\<close>

lemma newContext_flush_path:
  "GlobalString (newContext app_Flags supplied) ''flush_path'' = []"
  by (simp add: ctx_eval lookups)

section \<open>Path resolution\<close>

text \<open>
  C1. For every configuration in which path, fallback path and flush prefix are all
  empty and owner, repo and branch are non-empty, path resolution yields exactly the
  primary path \<^verbatim>\<open>/owner/repo/branch/\<close>, the fallback path \<^verbatim>\<open>/owner/repo/master/\<close> (the
  literal \<^verbatim>\<open>master\<close>, whatever the branch) and the flush prefix \<^verbatim>\<open>/owner/repo/\<close>; these
  are the paths of any plugin that \<^verbatim>\<open>run\<close> executes.
\<close>

theorem run_default_paths:
  assumes "GlobalString c ''path'' = []"
      and "GlobalString c ''fallback_path'' = []"
      and "GlobalString c ''flush_path'' = []"
      and "String c ''repo.owner'' = owner" "String c ''repo.name'' = repo"
      and "String c ''commit.branch'' = branch"
      and "owner \<noteq> []" "repo \<noteq> []" "branch \<noteq> []"
  shows "(run_path c, run_fallbackPath c, run_flushPath c) =
           (''/'' @ owner @ ''/'' @ repo @ ''/'' @ branch @ ''/'',
            ''/'' @ owner @ ''/'' @ repo @ ''/master/'',
            ''/'' @ owner @ ''/'' @ repo @ ''/'')
         \<and> (\<forall>p. PluginExec p \<in> set (fst (run s3_New Exec c)) \<longrightarrow>
               (Path p, FallbackPath p, FlushPath p) =
                 (''/'' @ owner @ ''/'' @ repo @ ''/'' @ branch @ ''/'',
                  ''/'' @ owner @ ''/'' @ repo @ ''/master/'',
                  ''/'' @ owner @ ''/'' @ repo @ ''/''))"
proof -
  have paths: "run_path c = ''/'' @ owner @ ''/'' @ repo @ ''/'' @ branch @ ''/''"
      "run_fallbackPath c = ''/'' @ owner @ ''/'' @ repo @ ''/master/''"
      "run_flushPath c = ''/'' @ owner @ ''/'' @ repo @ ''/''"
    using assms by (simp_all add: run_path_def run_fallbackPath_def run_flushPath_def)
  show ?thesis
    using run_exec_paths [of _ s3_New Exec c] by (auto simp: paths)
qed

theorem run_default_paths_witness:
  "GlobalString cfg_restore_feature ''path'' = []
   \<and> GlobalString cfg_restore_feature ''fallback_path'' = []
   \<and> GlobalString cfg_restore_feature ''flush_path'' = []
   \<and> String cfg_restore_feature ''repo.owner'' = ''acme''
   \<and> String cfg_restore_feature ''repo.name'' = ''widget''
   \<and> String cfg_restore_feature ''commit.branch'' = ''feature-x''
   \<and> (run_path cfg_restore_feature, run_fallbackPath cfg_restore_feature,
       run_flushPath cfg_restore_feature) =
        (''/acme/widget/feature-x/'', ''/acme/widget/master/'', ''/acme/widget/'')
   \<and> (\<exists>p. PluginExec p \<in> set (fst (run s3_New_ok Exec_ok cfg_restore_feature))
          \<and> (Path p, FallbackPath p, FlushPath p) =
              (''/acme/widget/feature-x/'', ''/acme/widget/master/'', ''/acme/widget/''))"
proof -
  have h: "GlobalString cfg_restore_feature ''path'' = []"
      "GlobalString cfg_restore_feature ''fallback_path'' = []"
      "GlobalString cfg_restore_feature ''flush_path'' = []"
      "String cfg_restore_feature ''repo.owner'' = ''acme''"
      "String cfg_restore_feature ''repo.name'' = ''widget''"
      "String cfg_restore_feature ''commit.branch'' = ''feature-x''"
    by (simp_all add: cfg_restore_feature_eq lookups)
  have ne: "''acme'' \<noteq> []" "''widget'' \<noteq> []" "''feature-x'' \<noteq> []"
    by simp_all
  note t = run_default_paths [OF h ne, of s3_New_ok Exec_ok]
  have ex: "PluginExec
         \<lparr>Filename = ''archive.tar'', Path = ''/acme/widget/feature-x/'',
          FallbackPath = ''/acme/widget/master/'', FlushPath = ''/acme/widget/'',
          Mode = RestoreMode, FlushAge = 30, Mount = [],
          Storage = \<lparr>Endpoint = ''s3.amazonaws.com'', Access = ''AK'', Secret = ''SK'',
                     UseSSL = True\<rparr>\<rparr> \<in> set (fst (run s3_New_ok Exec_ok cfg_restore_feature))"
    by (simp add: cfg_restore_feature_run)
  from t ex h show ?thesis
    by auto
qed

text \<open>
  C6, as the code has it. The claim that an empty owner or repo makes the invocation
  fail when a path needs defaulting does not hold: with no owner, the repo
  \<^verbatim>\<open>widget\<close> and the restore mode, \<^verbatim>\<open>run\<close> builds the storage client and executes the
  plugin with the paths \<^verbatim>\<open>//widget/master/\<close> and \<^verbatim>\<open>//widget/\<close>, and returns no error.
\<close>

theorem run_empty_owner_counterexample:
  "String cfg_no_owner ''repo.owner'' = []
   \<and> GlobalString cfg_no_owner ''path'' = []
   \<and> run s3_New_ok Exec_ok cfg_no_owner =
       ([S3New \<lparr>Endpoint = ''s3.amazonaws.com'', Access = ''AK'', Secret = ''SK'', UseSSL = True\<rparr>,
         PluginExec
           \<lparr>Filename = ''archive.tar'', Path = ''//widget/master/'',
            FallbackPath = ''//widget/master/'', FlushPath = ''//widget/'',
            Mode = RestoreMode, FlushAge = 30, Mount = [],
            Storage = \<lparr>Endpoint = ''s3.amazonaws.com'', Access = ''AK'', Secret = ''SK'',
                       UseSSL = True\<rparr>\<rparr>],
        None)"
  by (simp add: cfg_no_owner_eq lookups run_eval atoi_eval)

text \<open>
  C6, amended. For every configuration in which owner or repo is the empty string and
  the path, the fallback path or the flush prefix needs defaulting, path resolution does
  not fail: each missing path is built literally from the components, empty ones
  included, and the invocation goes on as for any other configuration. If exactly one
  mode is set (with mounts for rebuild), the storage client is constructed and the flush
  age parses, the plugin is executed with those paths.
\<close>

theorem run_empty_owner_proceeds:
  assumes "String c ''repo.owner'' = [] \<or> String c ''repo.name'' = []"
      and "GlobalString c ''path'' = [] \<or> GlobalString c ''fallback_path'' = []
           \<or> GlobalString c ''flush_path'' = []"
  shows "run_path c =
           (if GlobalString c ''path'' = []
            then ''/'' @ String c ''repo.owner'' @ ''/'' @ String c ''repo.name'' @ ''/''
                   @ String c ''commit.branch'' @ ''/''
            else GlobalString c ''path'')
         \<and> run_fallbackPath c =
           (if GlobalString c ''fallback_path'' = []
            then ''/'' @ String c ''repo.owner'' @ ''/'' @ String c ''repo.name'' @ ''/master/''
            else GlobalString c ''fallback_path'')
         \<and> run_flushPath c =
           (if GlobalString c ''flush_path'' = []
            then ''/'' @ String c ''repo.owner'' @ ''/'' @ String c ''repo.name'' @ ''/''
            else GlobalString c ''flush_path'')
         \<and> (length (filter (\<lambda>v. v) [Bool c ''rebuild'', Bool c ''restore'', Bool c ''flush'']) = 1
              \<and> (Bool c ''rebuild'' \<longrightarrow> StringSlice c ''mount'' \<noteq> [])
              \<and> s3Storage s3_New c = (evs, Inr s)
              \<and> Atoi (String c ''flush_age'') = Inr n
            \<longrightarrow> (\<exists>p. run s3_New Exec c = (evs @ [PluginExec p], Exec p)
                     \<and> Path p = run_path c \<and> FallbackPath p = run_fallbackPath c
                     \<and> FlushPath p = run_flushPath c))"
proof -
  have paths: "run_path c =
           (if GlobalString c ''path'' = []
            then ''/'' @ String c ''repo.owner'' @ ''/'' @ String c ''repo.name'' @ ''/''
                   @ String c ''commit.branch'' @ ''/''
            else GlobalString c ''path'')"
     "run_fallbackPath c =
           (if GlobalString c ''fallback_path'' = []
            then ''/'' @ String c ''repo.owner'' @ ''/'' @ String c ''repo.name'' @ ''/master/''
            else GlobalString c ''fallback_path'')"
     "run_flushPath c =
           (if GlobalString c ''flush_path'' = []
            then ''/'' @ String c ''repo.owner'' @ ''/'' @ String c ''repo.name'' @ ''/''
            else GlobalString c ''flush_path'')"
    by (simp_all add: run_path_def run_fallbackPath_def run_flushPath_def Let_def)
  have proceeds:
    "length (filter (\<lambda>v. v) [Bool c ''rebuild'', Bool c ''restore'', Bool c ''flush'']) = 1
       \<and> (Bool c ''rebuild'' \<longrightarrow> StringSlice c ''mount'' \<noteq> [])
       \<and> s3Storage s3_New c = (evs, Inr s)
       \<and> Atoi (String c ''flush_age'') = Inr n
     \<longrightarrow> (\<exists>p. run s3_New Exec c = (evs @ [PluginExec p], Exec p)
              \<and> Path p = run_path c \<and> FallbackPath p = run_fallbackPath c
              \<and> FlushPath p = run_flushPath c)"
  proof (intro impI, elim conjE)
    assume a: "length (filter (\<lambda>v. v) [Bool c ''rebuild'', Bool c ''restore'', Bool c ''flush'']) = 1"
      "Bool c ''rebuild'' \<longrightarrow> StringSlice c ''mount'' \<noteq> []"
      "s3Storage s3_New c = (evs, Inr s)"
      "Atoi (String c ''flush_age'') = Inr n"
    show "\<exists>p. run s3_New Exec c = (evs @ [PluginExec p], Exec p)
              \<and> Path p = run_path c \<and> FallbackPath p = run_fallbackPath c
              \<and> FlushPath p = run_flushPath c"
      unfolding run_proceeds [OF a] by (intro exI conjI) (rule refl, simp_all)
  qed
  from paths proceeds show ?thesis by blast
qed

theorem run_empty_owner_proceeds_witness:
  "(String cfg_no_owner ''repo.owner'' = [] \<or> String cfg_no_owner ''repo.name'' = [])
   \<and> (GlobalString cfg_no_owner ''path'' = [] \<or> GlobalString cfg_no_owner ''fallback_path'' = []
       \<or> GlobalString cfg_no_owner ''flush_path'' = [])
   \<and> length (filter (\<lambda>v. v) [Bool cfg_no_owner ''rebuild'', Bool cfg_no_owner ''restore'',
         Bool cfg_no_owner ''flush'']) = 1
   \<and> \<not> Bool cfg_no_owner ''rebuild''
   \<and> s3Storage s3_New_ok cfg_no_owner =
       ([S3New \<lparr>Endpoint = ''s3.amazonaws.com'', Access = ''AK'', Secret = ''SK'', UseSSL = True\<rparr>],
        Inr \<lparr>Endpoint = ''s3.amazonaws.com'', Access = ''AK'', Secret = ''SK'', UseSSL = True\<rparr>)
   \<and> Atoi (String cfg_no_owner ''flush_age'') = Inr 30
   \<and> run_path cfg_no_owner = ''//widget/master/''
   \<and> run_fallbackPath cfg_no_owner = ''//widget/master/''
   \<and> run_flushPath cfg_no_owner = ''//widget/''
   \<and> (\<exists>p. run s3_New_ok Exec_ok cfg_no_owner =
            ([S3New \<lparr>Endpoint = ''s3.amazonaws.com'', Access = ''AK'', Secret = ''SK'',
                      UseSSL = True\<rparr>] @ [PluginExec p], Exec_ok p)
          \<and> Path p = ''//widget/master/'')"
proof -
  let ?opts = "\<lparr>Endpoint = ''s3.amazonaws.com'', Access = ''AK'', Secret = ''SK'', UseSSL = True\<rparr>"
  have h1: "String cfg_no_owner ''repo.owner'' = [] \<or> String cfg_no_owner ''repo.name'' = []"
    by (simp add: cfg_no_owner_eq lookups)
  have h2: "GlobalString cfg_no_owner ''path'' = [] \<or> GlobalString cfg_no_owner ''fallback_path'' = []
       \<or> GlobalString cfg_no_owner ''flush_path'' = []"
    by (simp add: cfg_no_owner_eq lookups)
  have h3: "length (filter (\<lambda>v. v) [Bool cfg_no_owner ''rebuild'', Bool cfg_no_owner ''restore'',
         Bool cfg_no_owner ''flush'']) = 1"
    by (simp add: cfg_no_owner_eq lookups)
  have nr: "\<not> Bool cfg_no_owner ''rebuild''"
    by (simp add: cfg_no_owner_eq lookups)
  then have h4: "Bool cfg_no_owner ''rebuild'' \<longrightarrow> StringSlice cfg_no_owner ''mount'' \<noteq> []"
    by simp
  have h5: "s3Storage s3_New_ok cfg_no_owner = ([S3New ?opts], Inr ?opts)"
    by (simp add: cfg_no_owner_eq lookups s3Storage_def s3Storage_endpoint_def s3_New_ok_def Let_def)
  have h6: "Atoi (String cfg_no_owner ''flush_age'') = Inr 30"
    by (simp add: cfg_no_owner_eq lookups atoi_eval)
  have p: "run_path cfg_no_owner = ''//widget/master/''"
      "run_fallbackPath cfg_no_owner = ''//widget/master/''"
      "run_flushPath cfg_no_owner = ''//widget/''"
    by (simp_all add: cfg_no_owner_eq lookups run_path_def run_fallbackPath_def run_flushPath_def)
  note t = run_empty_owner_proceeds [OF h1 h2, of s3_New_ok "[S3New ?opts]" ?opts 30 Exec_ok]
  from t h3 h4 h5 h6 have
    "\<exists>p. run s3_New_ok Exec_ok cfg_no_owner = ([S3New ?opts] @ [PluginExec p], Exec_ok p)
          \<and> Path p = run_path cfg_no_owner"
    by blast
  with h1 h2 h3 nr h5 h6 p show ?thesis
    by simp
qed

text \<open>
  C7, evaluated on the code. The claim is that a supplied, non-empty flush prefix
  (\<^verbatim>\<open>flush_path\<close>) is used verbatim. \<^verbatim>\<open>run\<close> reads \<^verbatim>\<open>flush_path\<close> (line 183), but \<^verbatim>\<open>main\<close>
  declares no such flag beside \<^verbatim>\<open>path\<close> and \<^verbatim>\<open>fallback_path\<close>: with the setting
  \<^verbatim>\<open>flush_path = /custom/\<close> supplied, the plugin is executed with the default flush prefix
  \<^verbatim>\<open>/acme/widget/\<close>.
\<close>

theorem run_flush_path_not_read:
  "run s3_New_ok Exec_ok
     (newContext app_Flags
        [(''flush'', BoolValue True),
         (''flush_path'', StringValue ''/custom/''),
         (''repo.owner'', StringValue ''acme''), (''repo.name'', StringValue ''widget''),
         (''access-key'', StringValue ''AK''), (''secret-key'', StringValue ''SK'')]) =
     ([S3New \<lparr>Endpoint = ''s3.amazonaws.com'', Access = ''AK'', Secret = ''SK'', UseSSL = True\<rparr>,
       PluginExec
         \<lparr>Filename = ''archive.tar'', Path = ''/acme/widget/master/'',
          FallbackPath = ''/acme/widget/master/'', FlushPath = ''/acme/widget/'',
          Mode = FlushMode, FlushAge = 30, Mount = [],
          Storage = \<lparr>Endpoint = ''s3.amazonaws.com'', Access = ''AK'', Secret = ''SK'',
                     UseSSL = True\<rparr>\<rparr>],
      None)"
  by (simp add: ctx_eval lookups run_eval atoi_eval)

section \<open>Mode errors\<close>

text \<open>
  C2. For every configuration, if more than one of the three mode switches rebuild,
  restore and flush is set, the invocation fails with the mode-conflict error, and if
  none is set it fails as well; in both cases nothing has happened before the failure:
  no storage client was constructed and the plugin, which performs every storage
  operation, was not executed.
\<close>

theorem run_mode_conflict:
  "(2 \<le> length (filter (\<lambda>v. v) [Bool c ''rebuild'', Bool c ''restore'', Bool c ''flush''])
      \<longrightarrow> run s3_New Exec c =
            ([], Some (ErrorString ''Must use a single mode: rebuild, restore or flush'')))
   \<and> (\<not> Bool c ''rebuild'' \<and> \<not> Bool c ''restore'' \<and> \<not> Bool c ''flush''
      \<longrightarrow> run s3_New Exec c = ([], Some (ErrorString ''No action specified'')))"
  unfolding two_of_three by (auto simp: run_def isMultipleModes3)

theorem run_mode_conflict_witness:
  "2 \<le> length (filter (\<lambda>v. v) [Bool cfg_two_modes ''rebuild'', Bool cfg_two_modes ''restore'',
                                Bool cfg_two_modes ''flush''])
   \<and> run s3_New_ok Exec_ok cfg_two_modes =
       ([], Some (ErrorString ''Must use a single mode: rebuild, restore or flush''))
   \<and> \<not> Bool cfg_no_mode ''rebuild'' \<and> \<not> Bool cfg_no_mode ''restore'' \<and> \<not> Bool cfg_no_mode ''flush''
   \<and> run s3_New_ok Exec_ok cfg_no_mode = ([], Some (ErrorString ''No action specified''))"
  using run_mode_conflict [of cfg_two_modes s3_New_ok Exec_ok]
        run_mode_conflict [of cfg_no_mode s3_New_ok Exec_ok]
  by (simp add: cfg_two_modes_flags cfg_no_mode_flags)

text \<open>
  C3. For every configuration that selects exactly the rebuild mode with an empty mount
  list, the invocation fails with the error \<^verbatim>\<open>No mounts specified\<close>, and nothing has
  happened before the failure: the storage client was not constructed, so nothing was
  written to storage.
\<close>

theorem run_rebuild_no_mounts:
  assumes "Bool c ''rebuild''" "\<not> Bool c ''restore''" "\<not> Bool c ''flush''"
      and "StringSlice c ''mount'' = []"
  shows "run s3_New Exec c = ([], Some (ErrorString ''No mounts specified''))"
  using assms by (simp add: run_def isMultipleModes3)

theorem run_rebuild_no_mounts_witness:
  "Bool cfg_rebuild_no_mount ''rebuild'' \<and> \<not> Bool cfg_rebuild_no_mount ''restore''
   \<and> \<not> Bool cfg_rebuild_no_mount ''flush'' \<and> StringSlice cfg_rebuild_no_mount ''mount'' = []
   \<and> run s3_New_ok Exec_ok cfg_rebuild_no_mount = ([], Some (ErrorString ''No mounts specified''))"
  using run_rebuild_no_mounts [of cfg_rebuild_no_mount s3_New_ok Exec_ok]
  by (simp add: cfg_rebuild_no_mount_flags)

section \<open>The flush age\<close>

text \<open>
  What \<^verbatim>\<open>strconv.Atoi\<close> refuses for its syntax: the empty string, and any string with a
  character that is not a decimal digit, a leading sign apart.
\<close>

lemma ParseUint_loop_non_digit:
  "\<exists>ch \<in> set s. \<not> isDigit ch \<Longrightarrow> \<exists>e. ParseUint_loop n s = Inl e"
  by (induction s arbitrary: n) (auto simp: Let_def)

lemma Atoi_non_numeric:
  assumes "s = [] \<or> (\<exists>ch \<in> set (tl s). \<not> isDigit ch)
           \<or> (\<not> isDigit (hd s) \<and> hd s \<noteq> CHR ''+'' \<and> hd s \<noteq> CHR ''-'')"
  shows "\<exists>e. Atoi s = Inl e"
proof (cases s)
  case Nil
  then show ?thesis by (simp add: Atoi_def)
next
  case (Cons ch rest)
  show ?thesis
  proof (cases "ch = CHR ''+'' \<or> ch = CHR ''-''")
    case True
    with assms Cons have bad: "\<exists>c \<in> set rest. \<not> isDigit c"
      by auto
    have "\<exists>e. ParseUint rest = Inl e"
      using ParseUint_loop_non_digit [OF bad] by (simp add: ParseUint_def)
    with True Cons show ?thesis
      by (auto simp: Atoi_def Let_def)
  next
    case False
    with assms Cons have bad: "\<exists>c \<in> set (ch # rest). \<not> isDigit c"
      by auto
    have "\<exists>e. ParseUint (ch # rest) = Inl e"
      using ParseUint_loop_non_digit [OF bad] by (simp add: ParseUint_def)
    with False Cons show ?thesis
      by (auto simp: Atoi_def Let_def)
  qed
qed

text \<open>
  C8, as the code has it. The claim that a negative flush age is rejected does not
  hold: \<^verbatim>\<open>strconv.Atoi\<close> accepts a sign, so with \<^verbatim>\<open>flush_age = -5\<close> the plugin is executed
  with the flush age \<open>-5\<close> and \<^verbatim>\<open>run\<close> returns no error.
\<close>

theorem run_negative_age_counterexample:
  "String cfg_negative_age ''flush_age'' = ''-5''
   \<and> run s3_New_ok Exec_ok cfg_negative_age =
       ([S3New \<lparr>Endpoint = ''s3.amazonaws.com'', Access = ''AK'', Secret = ''SK'', UseSSL = True\<rparr>,
         PluginExec
           \<lparr>Filename = ''archive.tar'', Path = ''/acme/widget/master/'',
            FallbackPath = ''/acme/widget/master/'', FlushPath = ''/acme/widget/'',
            Mode = FlushMode, FlushAge = - 5, Mount = [],
            Storage = \<lparr>Endpoint = ''s3.amazonaws.com'', Access = ''AK'', Secret = ''SK'',
                       UseSSL = True\<rparr>\<rparr>],
        None)"
  by (simp add: cfg_negative_age_eq lookups run_eval atoi_eval)

text \<open>
  C8, amended. For every configuration, the flush age must parse as a decimal integer
  with an optional sign (\<^verbatim>\<open>strconv.Atoi\<close>). If it does not, the invocation fails and the
  plugin is not executed, so no storage operation is attempted; when the mode checks
  pass and the storage client has been constructed, which happens before the flush age
  is parsed, the error returned is the parse error. A flush age that parses, negative
  or not, is accepted and handed to the plugin.
\<close>

theorem run_flush_age_must_parse:
  "(Atoi (String c ''flush_age'') = Inl e \<longrightarrow>
      (\<exists>evs err. run s3_New Exec c = (evs, Some err) \<and> (\<forall>p. PluginExec p \<notin> set evs))
      \<and> (length (filter (\<lambda>v. v) [Bool c ''rebuild'', Bool c ''restore'', Bool c ''flush'']) = 1
           \<and> (Bool c ''rebuild'' \<longrightarrow> StringSlice c ''mount'' \<noteq> [])
           \<and> s3Storage s3_New c = (evs', Inr s)
         \<longrightarrow> run s3_New Exec c = (evs', Some e)))
   \<and> (Atoi (String c ''flush_age'') = Inr n
        \<and> length (filter (\<lambda>v. v) [Bool c ''rebuild'', Bool c ''restore'', Bool c ''flush'']) = 1
        \<and> (Bool c ''rebuild'' \<longrightarrow> StringSlice c ''mount'' \<noteq> [])
        \<and> s3Storage s3_New c = (evs', Inr s)
      \<longrightarrow> (\<exists>p. run s3_New Exec c = (evs' @ [PluginExec p], Exec p) \<and> FlushAge p = n))"
proof (intro conjI impI)
  assume "Atoi (String c ''flush_age'') = Inl e"
  then show "\<exists>evs err. run s3_New Exec c = (evs, Some err) \<and> (\<forall>p. PluginExec p \<notin> set evs)"
    by (rule run_failed_no_exec)
next
  assume "Atoi (String c ''flush_age'') = Inl e"
    and "length (filter (\<lambda>v. v) [Bool c ''rebuild'', Bool c ''restore'', Bool c ''flush'']) = 1
           \<and> (Bool c ''rebuild'' \<longrightarrow> StringSlice c ''mount'' \<noteq> [])
           \<and> s3Storage s3_New c = (evs', Inr s)"
  then show "run s3_New Exec c = (evs', Some e)"
    by (simp add: run_atoi_error)
next
  assume a: "Atoi (String c ''flush_age'') = Inr n
        \<and> length (filter (\<lambda>v. v) [Bool c ''rebuild'', Bool c ''restore'', Bool c ''flush'']) = 1
        \<and> (Bool c ''rebuild'' \<longrightarrow> StringSlice c ''mount'' \<noteq> [])
        \<and> s3Storage s3_New c = (evs', Inr s)"
  have r: "run s3_New Exec c =
           (evs' @ [PluginExec
                     \<lparr>Filename = run_filename c, Path = run_path c,
                      FallbackPath = run_fallbackPath c, FlushPath = run_flushPath c,
                      Mode = (if Bool c ''rebuild'' then RebuildMode
                              else if Bool c ''flush'' then FlushMode else RestoreMode),
                      FlushAge = n,
                      Mount = (if Bool c ''rebuild'' then StringSlice c ''mount'' else []),
                      Storage = s\<rparr>],
            Exec \<lparr>Filename = run_filename c, Path = run_path c,
                  FallbackPath = run_fallbackPath c, FlushPath = run_flushPath c,
                  Mode = (if Bool c ''rebuild'' then RebuildMode
                          else if Bool c ''flush'' then FlushMode else RestoreMode),
                  FlushAge = n,
                  Mount = (if Bool c ''rebuild'' then StringSlice c ''mount'' else []),
                  Storage = s\<rparr>)"
    using a by (intro run_proceeds) simp_all
  show "\<exists>p. run s3_New Exec c = (evs' @ [PluginExec p], Exec p) \<and> FlushAge p = n"
    unfolding r by (intro exI conjI) (rule refl, simp)
qed

theorem run_flush_age_must_parse_witness:
  "Atoi (String cfg_bad_age ''flush_age'') = Inl (NumError ''Atoi'' ''soon'' ErrSyntax)
   \<and> length (filter (\<lambda>v. v) [Bool cfg_bad_age ''rebuild'', Bool cfg_bad_age ''restore'',
        Bool cfg_bad_age ''flush'']) = 1
   \<and> \<not> Bool cfg_bad_age ''rebuild''
   \<and> s3Storage s3_New_ok cfg_bad_age =
       ([S3New \<lparr>Endpoint = ''s3.amazonaws.com'', Access = ''AK'', Secret = ''SK'', UseSSL = True\<rparr>],
        Inr \<lparr>Endpoint = ''s3.amazonaws.com'', Access = ''AK'', Secret = ''SK'', UseSSL = True\<rparr>)
   \<and> run s3_New_ok Exec_ok cfg_bad_age =
       ([S3New \<lparr>Endpoint = ''s3.amazonaws.com'', Access = ''AK'', Secret = ''SK'', UseSSL = True\<rparr>],
        Some (NumError ''Atoi'' ''soon'' ErrSyntax))
   \<and> Atoi (String cfg_negative_age ''flush_age'') = Inr (- 5)
   \<and> length (filter (\<lambda>v. v) [Bool cfg_negative_age ''rebuild'', Bool cfg_negative_age ''restore'',
        Bool cfg_negative_age ''flush'']) = 1
   \<and> \<not> Bool cfg_negative_age ''rebuild''
   \<and> s3Storage s3_New_ok cfg_negative_age =
       ([S3New \<lparr>Endpoint = ''s3.amazonaws.com'', Access = ''AK'', Secret = ''SK'', UseSSL = True\<rparr>],
        Inr \<lparr>Endpoint = ''s3.amazonaws.com'', Access = ''AK'', Secret = ''SK'', UseSSL = True\<rparr>)
   \<and> (\<exists>p. run s3_New_ok Exec_ok cfg_negative_age =
            ([S3New \<lparr>Endpoint = ''s3.amazonaws.com'', Access = ''AK'', Secret = ''SK'',
                      UseSSL = True\<rparr>] @ [PluginExec p], Exec_ok p)
          \<and> FlushAge p = - 5)"
proof -
  let ?opts = "\<lparr>Endpoint = ''s3.amazonaws.com'', Access = ''AK'', Secret = ''SK'', UseSSL = True\<rparr>"
  have b1: "Atoi (String cfg_bad_age ''flush_age'') = Inl (NumError ''Atoi'' ''soon'' ErrSyntax)"
    by (simp add: cfg_bad_age_eq lookups atoi_eval)
  have b2: "length (filter (\<lambda>v. v) [Bool cfg_bad_age ''rebuild'', Bool cfg_bad_age ''restore'',
        Bool cfg_bad_age ''flush'']) = 1"
      "\<not> Bool cfg_bad_age ''rebuild''"
    by (simp_all add: cfg_bad_age_eq lookups)
  have b3: "s3Storage s3_New_ok cfg_bad_age = ([S3New ?opts], Inr ?opts)"
    by (simp add: cfg_bad_age_eq lookups s3Storage_def s3Storage_endpoint_def s3_New_ok_def Let_def)
  have n1: "Atoi (String cfg_negative_age ''flush_age'') = Inr (- 5)"
    by (simp add: cfg_negative_age_eq lookups atoi_eval)
  have n2: "length (filter (\<lambda>v. v) [Bool cfg_negative_age ''rebuild'',
        Bool cfg_negative_age ''restore'', Bool cfg_negative_age ''flush'']) = 1"
      "\<not> Bool cfg_negative_age ''rebuild''"
    by (simp_all add: cfg_negative_age_eq lookups)
  have n3: "s3Storage s3_New_ok cfg_negative_age = ([S3New ?opts], Inr ?opts)"
    by (simp add: cfg_negative_age_eq lookups s3Storage_def s3Storage_endpoint_def s3_New_ok_def
          Let_def)
  note tb = run_flush_age_must_parse [of cfg_bad_age "NumError ''Atoi'' ''soon'' ErrSyntax"
      s3_New_ok Exec_ok "[S3New ?opts]" ?opts 0]
  note tn = run_flush_age_must_parse [of cfg_negative_age "NumError ''Atoi'' ''soon'' ErrSyntax"
      s3_New_ok Exec_ok "[S3New ?opts]" ?opts "- 5"]
  from tb b1 b2 b3 have rb: "run s3_New_ok Exec_ok cfg_bad_age =
       ([S3New ?opts], Some (NumError ''Atoi'' ''soon'' ErrSyntax))"
    by blast
  from tn n1 n2 n3 have rn: "\<exists>p. run s3_New_ok Exec_ok cfg_negative_age =
            ([S3New ?opts] @ [PluginExec p], Exec_ok p) \<and> FlushAge p = - 5"
    by blast
  from b1 b2 b3 n1 n2 n3 rb rn show ?thesis
    by blast
qed

section \<open>The storage endpoint\<close>

text \<open>
  C10. For every configuration whose server option is a non-empty string that begins
  with neither \<^verbatim>\<open>http://\<close> nor \<^verbatim>\<open>https://\<close>, the construction of the storage client fails
  with the \<^verbatim>\<open>Invalid server\<close> error before \<^verbatim>\<open>s3.New\<close> is called, and the invocation fails
  with nothing having happened, so before the plugin executes. When the server option
  is empty, the endpoint defaults to \<^verbatim>\<open>s3.amazonaws.com\<close> with SSL enabled, and these are
  the options of any client that is constructed.
\<close>

theorem s3Storage_invalid_server:
  "(String c ''server'' \<noteq> [] \<and> \<not> prefix ''http://'' (String c ''server'')
      \<and> \<not> prefix ''https://'' (String c ''server'')
    \<longrightarrow> s3Storage s3_New c =
          ([], Inl (ErrorString
                     (''Invalid server '' @ String c ''server'' @ ''. Needs to be a HTTP URI'')))
        \<and> (\<exists>err. run s3_New Exec c = ([], Some err)))
   \<and> (String c ''server'' = []
    \<longrightarrow> s3Storage_endpoint (String c ''server'') = Inr (''s3.amazonaws.com'', True)
        \<and> (\<forall>opts. S3New opts \<in> set (fst (s3Storage s3_New c))
              \<longrightarrow> Endpoint opts = ''s3.amazonaws.com'' \<and> UseSSL opts))"
proof (intro conjI impI)
  assume a: "String c ''server'' \<noteq> [] \<and> \<not> prefix ''http://'' (String c ''server'')
      \<and> \<not> prefix ''https://'' (String c ''server'')"
  then show s: "s3Storage s3_New c =
          ([], Inl (ErrorString
                     (''Invalid server '' @ String c ''server'' @ ''. Needs to be a HTTP URI'')))"
    by (simp add: s3Storage_def s3Storage_endpoint_def)
  show "\<exists>err. run s3_New Exec c = ([], Some err)"
    by (simp add: run_def s Let_def)
next
  assume "String c ''server'' = []"
  then show "s3Storage_endpoint (String c ''server'') = Inr (''s3.amazonaws.com'', True)"
    by (simp add: s3Storage_endpoint_def)
next
  assume "String c ''server'' = []"
  then show "\<forall>opts. S3New opts \<in> set (fst (s3Storage s3_New c))
              \<longrightarrow> Endpoint opts = ''s3.amazonaws.com'' \<and> UseSSL opts"
    by (auto simp: s3Storage_def s3Storage_endpoint_def Let_def split: if_splits)
qed

theorem s3Storage_invalid_server_witness:
  "String cfg_bad_server ''server'' \<noteq> []
   \<and> \<not> prefix ''http://'' (String cfg_bad_server ''server'')
   \<and> \<not> prefix ''https://'' (String cfg_bad_server ''server'')
   \<and> s3Storage s3_New_ok cfg_bad_server =
       ([], Inl (ErrorString ''Invalid server ftp://cache.local. Needs to be a HTTP URI''))
   \<and> run s3_New_ok Exec_ok cfg_bad_server =
       ([], Some (ErrorString ''Invalid server ftp://cache.local. Needs to be a HTTP URI''))
   \<and> String cfg_restore_feature ''server'' = []
   \<and> S3New \<lparr>Endpoint = ''s3.amazonaws.com'', Access = ''AK'', Secret = ''SK'', UseSSL = True\<rparr>
        \<in> set (fst (s3Storage s3_New_ok cfg_restore_feature))"
proof -
  have s: "String cfg_bad_server ''server'' = ''ftp://cache.local''"
    by (simp add: cfg_bad_server_eq lookups)
  have r: "run s3_New_ok Exec_ok cfg_bad_server =
       ([], Some (ErrorString ''Invalid server ftp://cache.local. Needs to be a HTTP URI''))"
    by (simp add: cfg_bad_server_eq lookups run_eval)
  have e: "String cfg_restore_feature ''server'' = []"
    by (simp add: cfg_restore_feature_eq lookups)
  have m: "S3New \<lparr>Endpoint = ''s3.amazonaws.com'', Access = ''AK'', Secret = ''SK'', UseSSL = True\<rparr>
        \<in> set (fst (s3Storage s3_New_ok cfg_restore_feature))"
    by (simp add: cfg_restore_feature_eq lookups s3Storage_def s3Storage_endpoint_def
          s3_New_ok_def Let_def)
  show ?thesis
    using s3Storage_invalid_server [of cfg_bad_server s3_New_ok Exec_ok]
          s3Storage_invalid_server [of cfg_restore_feature s3_New_ok Exec_ok]
    by (simp add: s r e m)
qed

section \<open>Restore and flush\<close>

text \<open>
  C4. For every restore in which the object at the primary key and the object at the
  fallback key are both absent (not found, no transport error), the operation completes
  successfully, with exit code 0 and zero files restored; the absence is not an error.
\<close>

theorem Restore_both_absent:
  assumes "get (path @ filename) = Absent" "get (fallbackPath @ filename) = Absent"
  shows "Restore get extract filename path fallbackPath = Inr CacheMiss
         \<and> restoredFiles CacheMiss = []
         \<and> exitCode (Restore get extract filename path fallbackPath) = 0"
  using assms by (simp add: Restore_def exitCode_def)

theorem Restore_both_absent_witness:
  "get_nothing (''/acme/widget/feature-x/'' @ ''archive.tar'') = Absent
   \<and> get_nothing (''/acme/widget/master/'' @ ''archive.tar'') = Absent
   \<and> Restore get_nothing extract_nothing ''archive.tar'' ''/acme/widget/feature-x/''
        ''/acme/widget/master/'' = Inr CacheMiss
   \<and> exitCode (Restore get_nothing extract_nothing ''archive.tar'' ''/acme/widget/feature-x/''
        ''/acme/widget/master/'') = 0"
  using Restore_both_absent [of get_nothing "''/acme/widget/feature-x/''" "''archive.tar''"
          "''/acme/widget/master/''" extract_nothing]
  by (simp add: get_nothing_def exitCode_def)

text \<open>What the sweep loop leaves in the namespace, for any listing.\<close>

lemma sweep_loop_set:
  "set (fst (sweep_loop fails now d objs st a b)) =
     {obj \<in> set st.
        \<not> (\<exists>(k, m) \<in> set objs. key obj = k \<and> now - m > d * secondsPerDay \<and> \<not> fails k)}"
proof (induction objs arbitrary: st a b)
  case Nil
  show ?case by simp
next
  case (Cons x objs)
  obtain k m where x: "x = (k, m)" by (cases x)
  show ?case
    unfolding x by (auto simp: Cons.IH storage_delete_def)
qed

lemma distinct_key_eq:
  assumes "distinct (map key st)" "a \<in> set st" "b \<in> set st" "key a = key b"
  shows "a = b"
  using assms by (meson distinct_map inj_onD)

lemma listed_iff:
  assumes "distinct (map key st)" "obj \<in> set st"
  shows "(\<exists>(k, m) \<in> set (storage_list st pfx). key obj = k \<and> now - m > d \<and> \<not> fails k)
         = (prefix pfx (key obj) \<and> now - lastModified obj > d \<and> \<not> fails (key obj))"
proof
  assume "\<exists>(k, m) \<in> set (storage_list st pfx). key obj = k \<and> now - m > d \<and> \<not> fails k"
  then obtain other where o: "other \<in> set st" "prefix pfx (key other)" "key obj = key other"
      "now - lastModified other > d" "\<not> fails (key other)"
    by (auto simp: storage_list_def)
  from assms o(1) o(3) have "obj = other" by (rule distinct_key_eq)
  with o show "prefix pfx (key obj) \<and> now - lastModified obj > d \<and> \<not> fails (key obj)" by simp
next
  assume "prefix pfx (key obj) \<and> now - lastModified obj > d \<and> \<not> fails (key obj)"
  with assms(2) show "\<exists>(k, m) \<in> set (storage_list st pfx). key obj = k \<and> now - m > d \<and> \<not> fails k"
    by (auto simp: storage_list_def)
qed

lemma sweep_store:
  "fst (sweep fails now st pfx d) = fst (sweep_loop fails now d (storage_list st pfx) st 0 0)"
  by (simp add: sweep_def split: prod.splits)

text \<open>
  C5, as the specification has it. The claim that every flush deletes exactly the
  objects under the flush prefix that are strictly older than the threshold does not
  hold when the backend fails a delete: the sweep continues past the failure and the
  object stays. With a backend that fails every delete, the object
  \<^verbatim>\<open>/acme/widget/master/archive.tar\<close>, under the prefix and older than 30 days, is
  still stored after the sweep, which reports zero deletions and an error.
\<close>

theorem sweep_failed_delete_counterexample:
  "prefix ''/acme/widget/''
     (key \<lparr>key = ''/acme/widget/master/archive.tar'', payload = (), lastModified = 0\<rparr>)
   \<and> 2592100 - lastModified \<lparr>key = ''/acme/widget/master/archive.tar'', payload = (),
         lastModified = 0\<rparr> > 30 * secondsPerDay
   \<and> \<lparr>key = ''/acme/widget/master/archive.tar'', payload = (), lastModified = 0\<rparr>
        \<in> set store3
   \<and> \<lparr>key = ''/acme/widget/master/archive.tar'', payload = (), lastModified = 0\<rparr>
        \<in> set (fst (sweep always_fails 2592100 store3 ''/acme/widget/'' 30))
   \<and> sweep always_fails 2592100 store3 ''/acme/widget/'' 30 =
        (store3, 0, Some StorageTransportError)"
  by (simp add: store3_def sweep_def storage_list_def storage_delete_def always_fails_def
        secondsPerDay_def)

text \<open>
  C5, amended. For every flush with retention threshold \<open>maxAgeDays\<close>, over a storage
  namespace (in which a key identifies one object), the objects removed are exactly
  those under the flush prefix whose age (now minus last-modified) strictly exceeds
  \<open>maxAgeDays\<close> days and whose delete the backend did not fail; a failed delete is passed
  over and leaves its object in place. When no delete fails, exactly the objects under
  the prefix that are strictly older than the threshold are deleted. An object whose
  age equals the threshold exactly is retained.
\<close>

theorem sweep_deletes_strictly_older:
  assumes "distinct (map key store)"
  shows "set (fst (sweep fails now store pfx maxAgeDays)) =
           {obj \<in> set store.
              \<not> (prefix pfx (key obj) \<and> now - lastModified obj > maxAgeDays * secondsPerDay
                 \<and> \<not> fails (key obj))}
         \<and> ((\<forall>k. \<not> fails k) \<longrightarrow>
              set (fst (sweep fails now store pfx maxAgeDays)) =
                {obj \<in> set store.
                   \<not> (prefix pfx (key obj)
                      \<and> now - lastModified obj > maxAgeDays * secondsPerDay)})
         \<and> (\<forall>obj \<in> set store. now - lastModified obj = maxAgeDays * secondsPerDay
               \<longrightarrow> obj \<in> set (fst (sweep fails now store pfx maxAgeDays)))"
proof -
  have eq: "set (fst (sweep fails now store pfx maxAgeDays)) =
           {obj \<in> set store.
              \<not> (prefix pfx (key obj) \<and> now - lastModified obj > maxAgeDays * secondsPerDay
                 \<and> \<not> fails (key obj))}"
    unfolding sweep_store sweep_loop_set
    using listed_iff [OF assms] by blast
  show ?thesis
    unfolding eq by simp
qed

theorem sweep_deletes_strictly_older_witness:
  "distinct (map key store3)
   \<and> (\<forall>k. \<not> never_fails k)
   \<and> fst (sweep never_fails 2592100 store3 ''/acme/widget/'' 30) =
       [\<lparr>key = ''/acme/widget/dev/archive.tar'', payload = (), lastModified = 100\<rparr>,
        \<lparr>key = ''/other/repo/master/archive.tar'', payload = (), lastModified = 0\<rparr>]
   \<and> set (fst (sweep never_fails 2592100 store3 ''/acme/widget/'' 30)) =
       {obj \<in> set store3.
          \<not> (prefix ''/acme/widget/'' (key obj)
             \<and> 2592100 - lastModified obj > 30 * secondsPerDay)}
   \<and> 2592100 - lastModified \<lparr>key = ''/acme/widget/dev/archive.tar'', payload = (),
        lastModified = 100\<rparr> = 30 * secondsPerDay
   \<and> \<lparr>key = ''/acme/widget/dev/archive.tar'', payload = (), lastModified = 100\<rparr>
        \<in> set (fst (sweep never_fails 2592100 store3 ''/acme/widget/'' 30))"
proof -
  have d: "distinct (map key store3)"
    by (simp add: store3_def)
  have nf: "\<forall>k. \<not> never_fails k"
    by (simp add: never_fails_def)
  have ev: "fst (sweep never_fails 2592100 store3 ''/acme/widget/'' 30) =
       [\<lparr>key = ''/acme/widget/dev/archive.tar'', payload = (), lastModified = 100\<rparr>,
        \<lparr>key = ''/other/repo/master/archive.tar'', payload = (), lastModified = 0\<rparr>]"
    by (simp add: store3_def sweep_def storage_list_def storage_delete_def never_fails_def
          secondsPerDay_def)
  have age: "2592100 - lastModified \<lparr>key = ''/acme/widget/dev/archive.tar'', payload = (),
        lastModified = 100\<rparr> = 30 * secondsPerDay"
    by (simp add: secondsPerDay_def)
  note t = sweep_deletes_strictly_older [OF d, of never_fails 2592100 "''/acme/widget/''" 30]
  from t nf have exact: "set (fst (sweep never_fails 2592100 store3 ''/acme/widget/'' 30)) =
       {obj \<in> set store3.
          \<not> (prefix ''/acme/widget/'' (key obj)
             \<and> 2592100 - lastModified obj > 30 * secondsPerDay)}"
    by blast
  have mem: "\<lparr>key = ''/acme/widget/dev/archive.tar'', payload = (), lastModified = 100\<rparr>
        \<in> set (fst (sweep never_fails 2592100 store3 ''/acme/widget/'' 30))"
    unfolding ev by simp
  from d nf ev exact age mem show ?thesis
    by blast
qed

end
